theory Spec2Isabelle
  imports Complex_Main
begin

section \<open>Python values and strings\<close>

text \<open>
  The agent of \<^verbatim>\<open>agent_core.py\<close> keeps a dictionary \<^verbatim>\<open>memory\<close> whose values are
  whatever the user answered or the gateway returned. Python strings are modelled as
  Isabelle strings; a character outside ASCII is written as its UTF-8 bytes, and
  \<^verbatim>\<open>lower()\<close>, \<^verbatim>\<open>strip()\<close> and \<^verbatim>\<open>split()\<close> are modelled on ASCII (case mapping and
  white space of other scripts are left as they are).
\<close>

definition is_space :: "char \<Rightarrow> bool" where
  "is_space c = (c \<in> set [CHR 0x09, CHR 0x0A, CHR 0x0B, CHR 0x0C, CHR 0x0D,
                           CHR 0x1C, CHR 0x1D, CHR 0x1E, CHR 0x1F, CHR 0x20])"

definition lower_char :: "char \<Rightarrow> char" where
  "lower_char c =
     (case map_of (zip ''ABCDEFGHIJKLMNOPQRSTUVWXYZ'' ''abcdefghijklmnopqrstuvwxyz'') c of
        Some d \<Rightarrow> d
      | None \<Rightarrow> c)"

definition py_lower :: "string \<Rightarrow> string" where
  "py_lower s = map lower_char s"

definition py_strip :: "string \<Rightarrow> string" where
  "py_strip s = rev (dropWhile is_space (rev (dropWhile is_space s)))"

text \<open>\<^verbatim>\<open>s.split()\<close>: the maximal runs of characters that are not white space.\<close>

primrec split_acc :: "string \<Rightarrow> string \<Rightarrow> string list" where
  "split_acc [] cur = (if cur = [] then [] else [cur])"
| "split_acc (c # cs) cur =
     (if is_space c then (if cur = [] then split_acc cs [] else cur # split_acc cs [])
      else split_acc cs (cur @ [c]))"

definition py_split :: "string \<Rightarrow> string list" where
  "py_split s = split_acc s []"

fun py_join :: "string \<Rightarrow> string list \<Rightarrow> string" where
  "py_join sep [] = []"
| "py_join sep [x] = x"
| "py_join sep (x # y # ys) = x @ sep @ py_join sep (y # ys)"

text \<open>\<^verbatim>\<open>needle in hay\<close> on strings: \<open>needle\<close> occurs as a contiguous piece of \<open>hay\<close>.\<close>

primrec starts_with :: "string \<Rightarrow> string \<Rightarrow> bool" where
  "starts_with [] hay = True"
| "starts_with (c # cs) hay =
     (case hay of [] \<Rightarrow> False | h # hs \<Rightarrow> c = h \<and> starts_with cs hs)"

primrec py_in :: "string \<Rightarrow> string \<Rightarrow> bool" where
  "py_in needle [] = (needle = [])"
| "py_in needle (h # hs) = (starts_with needle (h # hs) \<or> py_in needle hs)"

text \<open>\<^verbatim>\<open>s.replace(a, b)\<close> for a one-character \<open>a\<close>.\<close>

definition replace_char :: "char \<Rightarrow> string \<Rightarrow> string \<Rightarrow> string" where
  "replace_char a b s = concat (map (\<lambda>c. if c = a then b else [c]) s)"

section \<open>Numbers and dynamic values\<close>

text \<open>
  A Python \<^verbatim>\<open>float\<close> is modelled by the number it denotes: a rational, one of the two
  infinities, or not-a-number. Rounding to 53 bits is not modelled, so a decimal literal
  such as \<^verbatim>\<open>0.15\<close> stands for the float Python reads it as, and comparisons are
  comparisons of values.
\<close>

datatype pyfloat = Fin rat | PosInf | NegInf | NaN

datatype pyval =
    PNone
  | PBool bool
  | PInt int
  | PFloat pyfloat
  | PStr string
  | PList "pyval list"
  | PDict "(string \<times> pyval) list"

datatype error =
  ValueError | TypeError | OverflowError | AttributeError | KeyError | IndexError | ConnectionError

fun flt_less :: "pyfloat \<Rightarrow> pyfloat \<Rightarrow> bool" where
  "flt_less NaN y = False"
| "flt_less x NaN = False"
| "flt_less (Fin a) (Fin b) = (a < b)"
| "flt_less x NegInf = False"
| "flt_less PosInf y = False"
| "flt_less NegInf y = True"
| "flt_less (Fin a) PosInf = True"

fun flt_le :: "pyfloat \<Rightarrow> pyfloat \<Rightarrow> bool" where
  "flt_le NaN y = False"
| "flt_le x NaN = False"
| "flt_le x y = (\<not> flt_less y x)"

text \<open>\<^verbatim>\<open>k * x\<close> for an integer literal \<open>k\<close> and a float \<open>x\<close>.\<close>

fun int_times :: "int \<Rightarrow> pyfloat \<Rightarrow> pyfloat" where
  "int_times k (Fin a) = Fin (of_int k * a)"
| "int_times k NaN = NaN"
| "int_times k PosInf = (if k = 0 then NaN else if 0 < k then PosInf else NegInf)"
| "int_times k NegInf = (if k = 0 then NaN else if 0 < k then NegInf else PosInf)"

text \<open>\<^verbatim>\<open>x + y\<close> on floats.\<close>

fun flt_add :: "pyfloat \<Rightarrow> pyfloat \<Rightarrow> pyfloat" where
  "flt_add NaN y = NaN"
| "flt_add x NaN = NaN"
| "flt_add (Fin a) (Fin b) = Fin (a + b)"
| "flt_add PosInf NegInf = NaN"
| "flt_add NegInf PosInf = NaN"
| "flt_add PosInf y = PosInf"
| "flt_add NegInf y = NegInf"
| "flt_add (Fin a) y = y"

text \<open>\<^verbatim>\<open>round(x, 2)\<close>: to two decimals, a tie going to the even neighbour.\<close>

definition round_half_even :: "rat \<Rightarrow> int" where
  "round_half_even y =
     (let f = \<lfloor>y\<rfloor>; d = y - of_int f in
      if d < 1 / 2 then f else if 1 / 2 < d then f + 1 else if even f then f else f + 1)"

fun round2 :: "pyfloat \<Rightarrow> pyfloat" where
  "round2 (Fin a) = Fin (of_int (round_half_even (a * 100)) / 100)"
| "round2 x = x"

subsection \<open>Reading numbers from text\<close>

definition is_digit :: "char \<Rightarrow> bool" where
  "is_digit c = (c \<in> set ''0123456789'')"

definition digit_val :: "char \<Rightarrow> nat" where
  "digit_val c = (case map_of (zip ''0123456789'' [0 ..< 10]) c of Some d \<Rightarrow> d | None \<Rightarrow> 0)"

text \<open>A digit part: digits, single underscores allowed between two digits.\<close>

definition valid_digitpart :: "string \<Rightarrow> bool" where
  "valid_digitpart s =
     (s \<noteq> [] \<and> list_all (\<lambda>c. is_digit c \<or> c = CHR ''_'') s \<and> is_digit (hd s) \<and>
      is_digit (last s) \<and> \<not> py_in ''__'' s)"

definition digits_val :: "string \<Rightarrow> nat" where
  "digits_val s = foldl (\<lambda>acc c. 10 * acc + digit_val c) 0 (filter is_digit s)"

definition split_sign :: "string \<Rightarrow> bool \<times> string" where
  "split_sign s =
     (case s of
        [] \<Rightarrow> (False, [])
      | c # cs \<Rightarrow> if c = CHR ''-'' then (True, cs) else if c = CHR ''+'' then (False, cs)
                  else (False, s))"

text \<open>\<^verbatim>\<open>int(s)\<close> on a string, base ten.\<close>

definition int_of_str :: "string \<Rightarrow> int option" where
  "int_of_str s =
     (case split_sign (py_strip s) of
        (neg, body) \<Rightarrow>
          if valid_digitpart body
          then Some (if neg then - int (digits_val body) else int (digits_val body))
          else None)"

text \<open>
  The mantissa \<^verbatim>\<open>[digitpart] "." digitpart | digitpart ["."]\<close>, as the pair of its
  integer digits and its fraction digits.
\<close>

definition parse_mantissa :: "string \<Rightarrow> (string \<times> string) option" where
  "parse_mantissa m =
     (let ip = takeWhile (\<lambda>c. c \<noteq> CHR ''.'') m; rest = dropWhile (\<lambda>c. c \<noteq> CHR ''.'') m in
      if rest = [] then (if valid_digitpart ip then Some (ip, []) else None)
      else
        let fp = tl rest in
        if ip = [] then (if valid_digitpart fp then Some ([], fp) else None)
        else if fp = [] then (if valid_digitpart ip then Some (ip, []) else None)
        else if valid_digitpart ip \<and> valid_digitpart fp then Some (ip, fp)
        else None)"

definition parse_exponent :: "string \<Rightarrow> int option" where
  "parse_exponent e =
     (case split_sign e of
        (neg, body) \<Rightarrow>
          if valid_digitpart body
          then Some (if neg then - int (digits_val body) else int (digits_val body))
          else None)"

definition pow10 :: "int \<Rightarrow> rat" where
  "pow10 k = (if 0 \<le> k then 10 ^ nat k else 1 / 10 ^ nat (- k))"

definition is_e :: "char \<Rightarrow> bool" where
  "is_e c = (c = CHR ''e'' \<or> c = CHR ''E'')"

text \<open>\<^verbatim>\<open>float(s)\<close> on a string; \<open>None\<close> is Python's \<^verbatim>\<open>ValueError\<close>.\<close>

definition float_of_str :: "string \<Rightarrow> pyfloat option" where
  "float_of_str s =
     (case split_sign (py_strip s) of
        (neg, body) \<Rightarrow>
          if py_lower body = ''inf'' \<or> py_lower body = ''infinity''
          then Some (if neg then NegInf else PosInf)
          else if py_lower body = ''nan'' then Some NaN
          else
            let m = takeWhile (\<lambda>c. \<not> is_e c) body; rest = dropWhile (\<lambda>c. \<not> is_e c) body in
            case parse_mantissa m of
              None \<Rightarrow> None
            | Some (ip, fp) \<Rightarrow>
                (case (if rest = [] then Some 0 else parse_exponent (tl rest)) of
                   None \<Rightarrow> None
                 | Some ex \<Rightarrow>
                     let fd = filter is_digit fp;
                         v = (of_nat (digits_val ip) + of_nat (digits_val fp) / 10 ^ length fd)
                               * pow10 ex
                     in Some (Fin (if neg then - v else v))))"

subsection \<open>Conversions of dynamic values\<close>

text \<open>
  \<^verbatim>\<open>float(v)\<close>. An integer too large for a double raises \<^verbatim>\<open>OverflowError\<close>; the bound
  is the first integer that rounds beyond the largest double.
\<close>

definition py_float :: "pyval \<Rightarrow> error + pyfloat" where
  "py_float v =
     (case v of
        PNone \<Rightarrow> Inl TypeError
      | PBool b \<Rightarrow> Inr (Fin (if b then 1 else 0))
      | PInt i \<Rightarrow> if 2 ^ 1024 - 2 ^ 970 \<le> \<bar>i\<bar> then Inl OverflowError else Inr (Fin (of_int i))
      | PFloat x \<Rightarrow> Inr x
      | PStr s \<Rightarrow> (case float_of_str s of None \<Rightarrow> Inl ValueError | Some x \<Rightarrow> Inr x)
      | PList xs \<Rightarrow> Inl TypeError
      | PDict kvs \<Rightarrow> Inl TypeError)"

fun nat_digits :: "nat \<Rightarrow> string" where
  "nat_digits n =
     (if n < 10 then [''0123456789'' ! n]
      else nat_digits (n div 10) @ [''0123456789'' ! (n mod 10)])"

definition str_of_int :: "int \<Rightarrow> string" where
  "str_of_int i = (if i < 0 then CHR ''-'' # nat_digits (nat (- i)) else nat_digits (nat i))"

text \<open>
  \<^verbatim>\<open>str(v)\<close>. The text Python prints for a float, a list or a dictionary is not
  computed here: it is the parameter \<open>repr\<close>.
\<close>

definition py_str :: "(pyval \<Rightarrow> string) \<Rightarrow> pyval \<Rightarrow> string" where
  "py_str repr v =
     (case v of
        PNone \<Rightarrow> ''None''
      | PBool b \<Rightarrow> if b then ''True'' else ''False''
      | PInt i \<Rightarrow> str_of_int i
      | PStr s \<Rightarrow> s
      | _ \<Rightarrow> repr v)"

text \<open>Truth value of a dynamic value (\<^verbatim>\<open>if v:\<close>, \<^verbatim>\<open>bool(v)\<close>).\<close>

definition truthy :: "pyval \<Rightarrow> bool" where
  "truthy v =
     (case v of
        PNone \<Rightarrow> False
      | PBool b \<Rightarrow> b
      | PInt i \<Rightarrow> i \<noteq> 0
      | PFloat x \<Rightarrow> x \<noteq> Fin 0
      | PStr s \<Rightarrow> s \<noteq> []
      | PList xs \<Rightarrow> xs \<noteq> []
      | PDict kvs \<Rightarrow> kvs \<noteq> [])"

text \<open>\<^verbatim>\<open>d.get(k)\<close> and \<^verbatim>\<open>d[k] = v\<close> on a dictionary held as a list of its items.\<close>

definition dict_get :: "(string \<times> pyval) list \<Rightarrow> string \<Rightarrow> pyval" where
  "dict_get kvs k = (case map_of kvs k of Some v \<Rightarrow> v | None \<Rightarrow> PNone)"

primrec dict_set :: "(string \<times> pyval) list \<Rightarrow> string \<Rightarrow> pyval \<Rightarrow> (string \<times> pyval) list" where
  "dict_set [] k v = [(k, v)]"
| "dict_set (p # ps) k v = (if fst p = k then (k, v) # ps else p # dict_set ps k v)"

text \<open>
  \<^verbatim>\<open>a == b\<close>: numbers are compared by value across \<^verbatim>\<open>bool\<close>, \<^verbatim>\<open>int\<close> and
  \<^verbatim>\<open>float\<close>; a dictionary is compared with its items in order.
\<close>

primrec canon :: "pyval \<Rightarrow> pyval" where
  "canon PNone = PNone"
| "canon (PBool b) = PFloat (Fin (if b then 1 else 0))"
| "canon (PInt i) = PFloat (Fin (of_int i))"
| "canon (PFloat x) = PFloat x"
| "canon (PStr s) = PStr s"
| "canon (PList xs) = PList (map canon xs)"
| "canon (PDict kvs) = PDict (map (map_prod id canon) kvs)"

definition py_eq :: "pyval \<Rightarrow> pyval \<Rightarrow> bool" where
  "py_eq a b = (canon a = canon b \<and> a \<noteq> PFloat NaN)"

section \<open>Utilities and the field registry\<close>

text \<open>\<^verbatim>\<open>_normalize\<close>: \<^verbatim>\<open>" ".join(str(text).strip().lower().split())\<close>.\<close>

definition normalize :: "string \<Rightarrow> string" where
  "normalize text = py_join '' '' (py_split (py_lower (py_strip text)))"

definition safe_key_from_question :: "string \<Rightarrow> string" where
  "safe_key_from_question question_text =
     (let q = normalize question_text in
      replace_char CHR '','' []
        (replace_char CHR ''/'' ''_''
          (replace_char CHR '')'' []
            (replace_char CHR ''('' []
              (replace_char CHR '' '' ''_'' q)))))"

text \<open>The em dash of the location prompt, as its UTF-8 bytes.\<close>

definition em_dash :: string where
  "em_dash = [CHR 0xE2, CHR 0x80, CHR 0x94]"

definition q_area :: string where
  "q_area = ''Area in acres (e.g., 2)''"

definition q_soil :: string where
  "q_soil = ''Soil type (e.g., clay, sandy, loam, silty, peaty, chalky)''"

definition q_ph :: string where
  "q_ph = ''Soil pH (e.g., 6.5)''"

definition q_moisture :: string where
  "q_moisture = ''Moisture level (low / medium / high)''"

definition q_location :: string where
  "q_location = ''Location (lat, lon) '' @ em_dash @ '' comma separated (e.g., 12.9716,77.5946)''"

text \<open>
  \<^verbatim>\<open>field_to_question\<close>: the keys of its table are written with a space
  (\<^verbatim>\<open>"area acres"\<close>, \<^verbatim>\<open>"soil type"\<close>), as \<^verbatim>\<open>identify_missing_fields\<close> passes them.
\<close>

definition field_to_question :: "string \<Rightarrow> string" where
  "field_to_question field_name =
     (case map_of [(''area acres'', q_area), (''soil type'', q_soil), (''ph'', q_ph),
                   (''moisture'', q_moisture), (''location'', q_location)] field_name of
        Some q \<Rightarrow> q
      | None \<Rightarrow> ''Please provide '' @ field_name)"

text \<open>
  \<^verbatim>\<open>question_to_field\<close>: an exact match on the normalised prompts, in the order of the
  table, then the substring heuristics; \<open>None\<close> when nothing applies.
\<close>

definition question_table :: "(string \<times> string) list" where
  "question_table =
     [(''area_acres'', normalize q_area), (''soil_type'', normalize q_soil),
      (''ph'', normalize q_ph), (''moisture'', normalize q_moisture),
      (''location'', normalize q_location)]"

definition question_to_field :: "string \<Rightarrow> string option" where
  "question_to_field question_text =
     (let q = normalize question_text in
      case find (\<lambda>(field, qnorm). q = qnorm) question_table of
        Some (field, qnorm) \<Rightarrow> Some field
      | None \<Rightarrow>
          if py_in ''area'' q then Some ''area_acres''
          else if py_in ''soil'' q \<and> py_in ''type'' q then Some ''soil_type''
          else if py_in ''ph'' q \<or> py_in ''pH'' question_text then Some ''ph''
          else if py_in ''moisture'' q then Some ''moisture''
          else if py_in ''location'' q \<or> (py_in ''lat'' q \<and> py_in ''lon'' q) then Some ''location''
          else None)"

definition canonical_fields :: "string list" where
  "canonical_fields = [''area_acres'', ''soil_type'', ''ph'', ''moisture'', ''location'']"


section \<open>The agent\<close>

text \<open>
  A log line is an f-string: its literal pieces and the values formatted into it, in
  order. The time stamp that starts every line is left out, and how a value prints is
  not computed.
\<close>

datatype piece = Lit string | Val pyval | Exc error

type_synonym fstring = "piece list"

record step =
  step_name :: string
  requires :: "string list"

record inputs =
  in_area_acres :: pyfloat
  in_soil_type :: string
  in_ph :: pyfloat
  in_moisture :: string

record recommendation_rec =
  crop :: string
  reason :: string
  confidence :: string
  estimated_costs :: "(string \<times> pyfloat) list"

record plan_item =
  item_task :: fstring
  item_weeks :: int
  item_notes :: string

record final_result =
  recommendation :: string
  action_plan :: "plan_item list"
  costs :: "(string \<times> pyfloat) list"
  rationale :: string

record agent =
  memory :: "string \<rightharpoonup> pyval"
  logs :: "fstring list"
  pending_questions :: "string list"
  last_user_input :: string
  last_result :: "final_result option"

text \<open>\<^verbatim>\<open>Agent()\<close>\<close>

definition new_agent :: agent where
  "new_agent = \<lparr>memory = Map.empty, logs = [], pending_questions = [],
                 last_user_input = [], last_result = None\<rparr>"

definition log_append :: "fstring \<Rightarrow> agent \<Rightarrow> agent" where
  "log_append line a = a\<lparr>logs := logs a @ [line]\<rparr>"

text \<open>
  What lies outside the program: the environment variable holding the API key, the
  clock, the replies of the gateway to the requests the agent sends, in the order it
  sends them, and the text Python prints for a float, a list or a dictionary.
\<close>

datatype http_reply =
    Response bool int string "pyval option"
  | RequestFailed error

record world =
  api_key_env :: string
  clock :: int
  replies :: "http_reply list"
  py_repr :: "pyval \<Rightarrow> string"

datatype response =
    Followup "string list" "fstring list"
  | Final final_result "fstring list"

subsection \<open>Planner and missing-field resolver\<close>

definition simple_planner :: "string \<Rightarrow> step list" where
  "simple_planner text =
     (let txt = py_lower text;
          required = (if py_in ''acre'' txt \<or> py_in ''area'' txt then [''area_acres''] else [])
                       @ [''soil_type'', ''ph'', ''moisture'', ''location'']
      in [\<lparr>step_name = ''collect_info'', requires = required\<rparr>,
          \<lparr>step_name = ''call_crop_tool'',
           requires = [''soil_type'', ''ph'', ''area_acres'', ''moisture'']\<rparr>,
          \<lparr>step_name = ''build_plan'', requires = [''crop_recommendation'']\<rparr>])"

text \<open>The first loop of \<^verbatim>\<open>identify_missing_fields\<close>.\<close>

definition missing_names :: "step list \<Rightarrow> agent \<Rightarrow> string list" where
  "missing_names steps a =
     concat (map (\<lambda>st. map (replace_char CHR ''_'' '' '')
                           (filter (\<lambda>field. memory a field = None) (requires st))) steps)"

text \<open>Its second loop, with the set \<^verbatim>\<open>seen\<close>.\<close>

primrec dedupe_to_questions :: "string list \<Rightarrow> string set \<Rightarrow> string list" where
  "dedupe_to_questions [] seen = []"
| "dedupe_to_questions (m # ms) seen =
     (if m \<in> seen then dedupe_to_questions ms seen
      else field_to_question m # dedupe_to_questions ms (insert m seen))"

definition identify_missing_fields :: "step list \<Rightarrow> agent \<Rightarrow> string list" where
  "identify_missing_fields steps a = dedupe_to_questions (missing_names steps a) {}"

subsection \<open>Answer normaliser\<close>

definition generic_parse :: "world \<Rightarrow> pyval \<Rightarrow> pyval" where
  "generic_parse W answer =
     (let s = py_strip (py_str (py_repr W) answer) in
      if CHR ''.'' \<in> set s
      then (case float_of_str s of Some x \<Rightarrow> PFloat x | None \<Rightarrow> PStr s)
      else (case int_of_str s of Some i \<Rightarrow> PInt i | None \<Rightarrow> PStr s))"

definition parse_answer_for_field :: "world \<Rightarrow> string \<Rightarrow> pyval \<Rightarrow> pyval" where
  "parse_answer_for_field W field answer =
     (if answer = PNone then PNone
      else if field = ''area_acres'' \<or> field = ''ph''
      then (case py_float answer of Inr x \<Rightarrow> PFloat x | Inl e \<Rightarrow> generic_parse W answer)
      else if field = ''moisture'' \<or> field = ''soil_type''
      then PStr (py_lower (py_strip (py_str (py_repr W) answer)))
      else if field = ''location''
      then PStr (py_strip (py_str (py_repr W) answer))
      else generic_parse W answer)"

subsection \<open>Crop rules and action plan\<close>

definition soil_aliases :: "(string \<times> string list) list" where
  "soil_aliases =
     [(''clay'', [''clay'']), (''loam'', [''loam'']), (''sandy'', [''sand'', ''sandy'']),
      (''silty'', [''silt'', ''silty'']), (''peaty'', [''peat'', ''peaty'']),
      (''chalky'', [''chalk'', ''chalky''])]"

definition soil_key_of :: "string \<Rightarrow> string" where
  "soil_key_of soil_raw =
     (case find (\<lambda>(k, vals). list_ex (\<lambda>v. py_in v soil_raw) vals) soil_aliases of
        Some (k, vals) \<Rightarrow> k
      | None \<Rightarrow> ''unknown'')"

definition cost :: "int \<Rightarrow> pyfloat \<Rightarrow> pyfloat" where
  "cost k area = round2 (int_times k area)"

definition wet :: "string \<Rightarrow> bool" where
  "wet m = (m \<in> set [''medium'', ''high''])"

definition crop_recommendation_tool :: "inputs \<Rightarrow> recommendation_rec" where
  "crop_recommendation_tool inp =
     (let soil_raw = py_lower (in_soil_type inp);
          p = in_ph inp;
          m = py_lower (if in_moisture inp = [] then ''medium'' else in_moisture inp);
          area = in_area_acres inp;
          soil_key = soil_key_of soil_raw
      in
      if soil_key \<in> set [''clay'', ''loam''] then
        (if flt_le (Fin 5.5) p \<and> flt_le p (Fin 7.5) \<and> wet m then
           \<lparr>crop = ''Maize'',
            reason = ''Loamy/clay soil with near-neutral pH and sufficient moisture suits maize.'',
            confidence = ''high'',
            estimated_costs = [(''seeds'', cost 1000 area), (''fertilizers'', cost 800 area)]\<rparr>
         else if m = ''low'' then
           \<lparr>crop = ''Pulses (e.g., Pigeon pea)'',
            reason = ''Drier conditions favor drought-tolerant pulses.'',
            confidence = ''medium'',
            estimated_costs = [(''seeds'', cost 700 area), (''fertilizers'', cost 400 area)]\<rparr>
         else
           \<lparr>crop = ''Maize'', reason = ''General good fit for loamy/clay soils.'',
            confidence = ''medium'', estimated_costs = [(''seeds'', cost 1000 area)]\<rparr>)
      else if soil_key = ''sandy'' then
        (if m = ''low'' \<and> flt_le (Fin 5.5) p \<and> flt_le p (Fin 7.0) then
           \<lparr>crop = ''Millet'', reason = ''Sandy + low moisture favors millet.'',
            confidence = ''high'',
            estimated_costs = [(''seeds'', cost 600 area), (''fertilizers'', cost 400 area)]\<rparr>
         else if wet m \<and> flt_le (Fin 5.5) p \<and> flt_le p (Fin 7.5) then
           \<lparr>crop = ''Groundnut'',
            reason = ''Groundnut performs well in sandy soils with moderate moisture.'',
            confidence = ''medium'',
            estimated_costs = [(''seeds'', cost 700 area), (''fertilizers'', cost 500 area)]\<rparr>
         else
           \<lparr>crop = ''Millet'', reason = ''Conservative choice for sandy when uncertain.'',
            confidence = ''medium'', estimated_costs = [(''seeds'', cost 650 area)]\<rparr>)
      else if soil_key = ''silty'' then
        (if flt_le (Fin 6.0) p \<and> flt_le p (Fin 7.5) \<and> wet m then
           \<lparr>crop = ''Wheat'', reason = ''Silty + moist + near-neutral pH suits wheat.'',
            confidence = ''high'',
            estimated_costs = [(''seeds'', cost 1200 area), (''fertilizers'', cost 900 area)]\<rparr>
         else
           \<lparr>crop = ''Barley'', reason = ''Barley tolerates variable silty conditions.'',
            confidence = ''medium'',
            estimated_costs = [(''seeds'', cost 1100 area), (''fertilizers'', cost 850 area)]\<rparr>)
      else if soil_key = ''peaty'' then
        (if m = ''high'' then
           \<lparr>crop = ''Rice'',
            reason = ''Peaty soils retain water '' @ em_dash @ '' rice is well suited.'',
            confidence = ''high'',
            estimated_costs = [(''seeds'', cost 1300 area), (''fertilizers'', cost 1000 area)]\<rparr>
         else
           \<lparr>crop = ''Maize'', reason = ''Peaty but drier -> maize possible.'',
            confidence = ''medium'', estimated_costs = [(''seeds'', cost 1000 area)]\<rparr>)
      else if soil_key = ''chalky'' then
        (if flt_less (Fin 7.0) p \<and> wet m then
           \<lparr>crop = ''Sugarcane'',
            reason = ''Alkaline chalky soils with moisture suit sugarcane.'',
            confidence = ''medium'',
            estimated_costs = [(''seeds'', cost 1400 area), (''fertilizers'', cost 1100 area)]\<rparr>
         else
           \<lparr>crop = ''Wheat'', reason = ''Wheat tolerates chalky conditions.'',
            confidence = ''low'',
            estimated_costs = [(''seeds'', cost 1200 area), (''fertilizers'', cost 900 area)]\<rparr>)
      else
        (if m = ''low'' then
           \<lparr>crop = ''Millet'',
            reason = ''Default drought-tolerant choice when soil unknown.'',
            confidence = ''medium'', estimated_costs = [(''seeds'', cost 700 area)]\<rparr>
         else if wet m \<and> flt_le (Fin 6.0) p \<and> flt_le p (Fin 7.5) then
           \<lparr>crop = ''Maize'',
            reason = ''General-purpose choice for neutral pH and adequate moisture.'',
            confidence = ''medium'', estimated_costs = [(''seeds'', cost 1000 area)]\<rparr>
         else
           \<lparr>crop = ''Maize'', reason = ''Fallback recommendation.'', confidence = ''low'',
            estimated_costs = [(''seeds'', cost 1000 area)]\<rparr>))"

definition build_action_plan :: "inputs \<Rightarrow> recommendation_rec \<Rightarrow> plan_item list" where
  "build_action_plan inp r =
     (let area = in_area_acres inp; c = crop r in
      [\<lparr>item_task = [Lit ''Land preparation and seed purchase for '', Val (PStr c), Lit '' on '',
                 Val (PFloat area), Lit '' acres''],
        item_weeks = 1, item_notes = ''Prepare field, buy certified seeds.''\<rparr>,
       \<lparr>item_task = [Lit ''Sowing and initial fertilizer application for '', Val (PStr c)],
        item_weeks = 2, item_notes = ''Sow seeds at recommended spacing. Apply basal fertilizer.''\<rparr>,
       \<lparr>item_task = [Lit ''Crop maintenance and harvest planning for '', Val (PStr c)],
        item_weeks = 10,
        item_notes = ''Irrigation as needed, pest checks, harvesting timeline planning.''\<rparr>])"

subsection \<open>Execution\<close>

definition mem_get :: "agent \<Rightarrow> string \<Rightarrow> pyval \<Rightarrow> pyval" where
  "mem_get a k d = (case memory a k of Some v \<Rightarrow> v | None \<Rightarrow> d)"

definition moisture_bucket :: "pyfloat \<Rightarrow> string" where
  "moisture_bucket sm =
     (if flt_less sm (Fin 0.15) then ''low''
      else if flt_less sm (Fin 0.35) then ''medium''
      else ''high'')"

definition inputs_val :: "inputs \<Rightarrow> pyval" where
  "inputs_val inp =
     PDict [(''area_acres'', PFloat (in_area_acres inp)), (''soil_type'', PStr (in_soil_type inp)),
            (''ph'', PFloat (in_ph inp)), (''moisture'', PStr (in_moisture inp))]"

definition rec_val :: "recommendation_rec \<Rightarrow> pyval" where
  "rec_val r =
     PDict [(''crop'', PStr (crop r)), (''reason'', PStr (reason r)),
            (''confidence'', PStr (confidence r)),
            (''estimated_costs'', PDict (map (\<lambda>(k, x). (k, PFloat x)) (estimated_costs r)))]"

text \<open>
  The first part of \<^verbatim>\<open>execute_plan\<close>, up to the line that logs the inputs: the
  four inputs are read from memory with their defaults, and a numeric
  \<^verbatim>\<open>soil_moisture\<close> replaces the moisture. A \<^verbatim>\<open>float(...)\<close> that raises outside the
  \<^verbatim>\<open>try\<close> leaves the method, with the agent as it was.
\<close>

definition resolve_inputs :: "world \<Rightarrow> agent \<Rightarrow> error + (inputs \<times> agent)" where
  "resolve_inputs W a =
     (case py_float (mem_get a ''area_acres'' (PInt 1)) of
        Inl e \<Rightarrow> Inl e
      | Inr area \<Rightarrow>
          let soil = py_lower (py_str (py_repr W) (mem_get a ''soil_type'' (PStr ''clay''))) in
          case py_float (mem_get a ''ph'' (PFloat (Fin 6.5))) of
            Inl e \<Rightarrow> Inl e
          | Inr p \<Rightarrow>
              let m0 = py_lower (py_str (py_repr W) (mem_get a ''moisture'' (PStr ''medium'')));
                  (m, a1) =
                    (case memory a ''soil_moisture'' of
                       None \<Rightarrow> (m0, a)
                     | Some v \<Rightarrow>
                         (case py_float v of
                            Inl e \<Rightarrow> (m0, a)
                          | Inr sm \<Rightarrow>
                              (moisture_bucket sm,
                               log_append [Lit ''agro soil_moisture='', Val (PFloat sm),
                                           Lit '' -> moisture='', Val (PStr (moisture_bucket sm))] a)));
                  inp = \<lparr>in_area_acres = area, in_soil_type = soil, in_ph = p, in_moisture = m\<rparr>
              in Inr (inp, log_append [Lit ''Using inputs: '', Val (inputs_val inp)] a1))"

definition execute_plan :: "world \<Rightarrow> step list \<Rightarrow> agent \<Rightarrow> (error + final_result) \<times> agent" where
  "execute_plan W steps a =
     (case resolve_inputs W a of
        Inl e \<Rightarrow> (Inl e, a)
      | Inr (inp, a1) \<Rightarrow>
          let r = crop_recommendation_tool inp;
              a2 = log_append [Lit ''Crop tool returned: '', Val (rec_val r)] a1;
              plan_out = build_action_plan inp r;
              final = \<lparr>recommendation =
                         ''Recommended crop: '' @ crop r @ '' (confidence: '' @ confidence r @ '')'',
                       action_plan = plan_out, costs = estimated_costs r, rationale = reason r\<rparr>
          in (Inr final, a2))"

subsection \<open>First entry point\<close>

definition plan_val :: "step list \<Rightarrow> pyval" where
  "plan_val steps =
     PList (map (\<lambda>st. PDict [(''name'', PStr (step_name st)),
                              (''requires'', PList (map PStr (requires st)))]) steps)"

definition handle_user_input :: "world \<Rightarrow> string \<Rightarrow> agent \<Rightarrow> (error + response) \<times> agent" where
  "handle_user_input W text a =
     (let a1 = log_append [Lit ''Received user query: '', Val (PStr text)]
                 (a\<lparr>last_user_input := text\<rparr>);
          steps = simple_planner text;
          a2 = log_append [Lit ''Planner steps: '', Val (plan_val steps)] a1;
          missing = identify_missing_fields steps a2
      in
      if missing \<noteq> [] then
        (let a3 = log_append [Lit ''Missing fields: '', Val (PList (map PStr missing))]
                    (a2\<lparr>pending_questions := missing\<rparr>)
         in (Inr (Followup missing (logs a3)), a3))
      else
        (case execute_plan W steps a2 of
           (Inl e, a3) \<Rightarrow> (Inl e, a3)
         | (Inr final, a3) \<Rightarrow>
             let a4 = (log_append [Lit ''Execution completed.''] a3)\<lparr>last_result := Some final\<rparr>
             in (Inr (Final final (logs a4)), a4)))"


section \<open>The gateway\<close>

definition get_api_key :: "world \<Rightarrow> string" where
  "get_api_key W = py_strip (api_key_env W)"

text \<open>
  One request: the next reply of the gateway is taken; when none is left the request
  fails with a connection error.
\<close>

definition next_reply :: "world \<Rightarrow> http_reply \<times> world" where
  "next_reply W =
     (case replies W of
        [] \<Rightarrow> (RequestFailed ConnectionError, W)
      | r # rs \<Rightarrow> (r, W\<lparr>replies := rs\<rparr>))"

text \<open>
  \<^verbatim>\<open>get_soil_by_polyid\<close> and \<^verbatim>\<open>get_weather_by_polyid\<close> differ in the address they
  ask and in the first word of their log lines.
\<close>

definition get_by_polyid :: "string \<Rightarrow> pyval \<Rightarrow> world \<Rightarrow> agent \<Rightarrow> pyval \<times> world \<times> agent" where
  "get_by_polyid label polyid W a =
     (if get_api_key W = [] \<or> \<not> truthy polyid then (PNone, W, a)
      else
        case next_reply W of
          (Response ok status txt js, W1) \<Rightarrow>
            if ok then
              (case js of
                 Some v \<Rightarrow> (v, W1, a)
               | None \<Rightarrow> (PNone, W1, log_append [Lit (label @ '' fetch error: ''), Exc ValueError] a))
            else (PNone, W1,
                  log_append [Lit (label @ '' fetch failed: ''), Val (PInt status), Lit '' '',
                              Val (PStr txt)] a)
        | (RequestFailed e, W1) \<Rightarrow>
            (PNone, W1, log_append [Lit (label @ '' fetch error: ''), Exc e] a))"

definition get_soil_by_polyid :: "pyval \<Rightarrow> world \<Rightarrow> agent \<Rightarrow> pyval \<times> world \<times> agent" where
  "get_soil_by_polyid = get_by_polyid ''Soil''"

definition get_weather_by_polyid :: "pyval \<Rightarrow> world \<Rightarrow> agent \<Rightarrow> pyval \<times> world \<times> agent" where
  "get_weather_by_polyid = get_by_polyid ''Weather''"

text \<open>\<^verbatim>\<open>feats[0]\<close> on a value that is not empty.\<close>

definition index0 :: "pyval \<Rightarrow> error + pyval" where
  "index0 v =
     (case v of
        PList xs \<Rightarrow> (case xs of [] \<Rightarrow> Inl IndexError | x # _ \<Rightarrow> Inr x)
      | PStr cs \<Rightarrow> (case cs of [] \<Rightarrow> Inl IndexError | c # _ \<Rightarrow> Inr (PStr [c]))
      | PDict kvs \<Rightarrow> Inl KeyError
      | _ \<Rightarrow> Inl TypeError)"

definition select_feature :: "pyval \<Rightarrow> agent \<Rightarrow> (error + pyval option) \<times> agent" where
  "select_feature g a =
     (case g of
        PDict d \<Rightarrow>
          if py_eq (dict_get d ''type'') (PStr ''FeatureCollection'') then
            (let feats = (case map_of d ''features'' of Some v \<Rightarrow> v | None \<Rightarrow> PList []) in
             if \<not> truthy feats then (Inr None, log_append [Lit ''Empty FeatureCollection''] a)
             else (case index0 feats of Inl e \<Rightarrow> (Inl e, a) | Inr f \<Rightarrow> (Inr (Some f), a)))
          else if py_eq (dict_get d ''type'') (PStr ''Feature'') then (Inr (Some g), a)
          else (Inr (Some (PDict [(''type'', PStr ''Feature''), (''properties'', PDict []),
                                  (''geometry'', g)])), a)
      | _ \<Rightarrow> (Inr (Some (PDict [(''type'', PStr ''Feature''), (''properties'', PDict []),
                               (''geometry'', g)])), a))"

text \<open>
  The body of the \<^verbatim>\<open>try\<close> of \<^verbatim>\<open>create_polygon_from_geojson\<close> once the gateway has
  answered with success: \<open>Inl\<close> is the exception its \<^verbatim>\<open>except\<close> catches.
\<close>

definition record_polygon :: "string \<Rightarrow> pyval option \<Rightarrow> agent \<Rightarrow> error + (pyval \<times> agent)" where
  "record_polygon nm js a =
     (case js of
        None \<Rightarrow> Inl ValueError
      | Some obj \<Rightarrow>
          (case obj of
             PDict d \<Rightarrow>
               let polyid = dict_get d ''id'' in
               (case memory a ''polygons'' of
                  None \<Rightarrow>
                    Inr (obj, a\<lparr>memory := (memory a)(''polygons'' \<mapsto> PDict [(nm, polyid)],
                                                       ''last_polygon'' \<mapsto> obj)\<rparr>)
                | Some (PDict ps) \<Rightarrow>
                    Inr (obj, a\<lparr>memory := (memory a)(''polygons'' \<mapsto> PDict (dict_set ps nm polyid),
                                                       ''last_polygon'' \<mapsto> obj)\<rparr>)
                | Some _ \<Rightarrow> Inl TypeError)
           | _ \<Rightarrow> Inl AttributeError))"

definition create_polygon_from_geojson ::
  "pyval \<Rightarrow> string \<Rightarrow> world \<Rightarrow> agent \<Rightarrow> (error + pyval) \<times> world \<times> agent" where
  "create_polygon_from_geojson g name_arg W a =
     (if get_api_key W = [] then (Inr PNone, W, log_append [Lit ''Agro API key missing.''] a)
      else
        case select_feature g a of
          (Inl e, a1) \<Rightarrow> (Inl e, W, a1)
        | (Inr None, a1) \<Rightarrow> (Inr PNone, W, a1)
        | (Inr (Some geo_feature), a1) \<Rightarrow>
            let nm = (if name_arg = [] then ''field_'' @ str_of_int (clock W) else name_arg) in
            (case next_reply W of
               (Response ok status txt js, W1) \<Rightarrow>
                 if ok then
                   (case record_polygon nm js a1 of
                      Inr (obj, a2) \<Rightarrow>
                        (Inr obj, W1,
                         log_append [Lit ''Created polygon '', Val (PStr nm), Lit '' -> '',
                                     Val (dict_get (case obj of PDict d \<Rightarrow> d | _ \<Rightarrow> []) ''id'')] a2)
                    | Inl e \<Rightarrow>
                        (Inr PNone, W1, log_append [Lit ''Polygon create error: '', Exc e] a1))
                 else (Inr PNone, W1,
                       log_append [Lit ''Polygon creation failed: '', Val (PInt status), Lit '' '',
                                   Val (PStr txt)] a1)
             | (RequestFailed e, W1) \<Rightarrow>
                 (Inr PNone, W1, log_append [Lit ''Polygon create error: '', Exc e] a1)))"

definition delete_polygon_by_id :: "pyval \<Rightarrow> world \<Rightarrow> agent \<Rightarrow> bool \<times> world \<times> agent" where
  "delete_polygon_by_id polyid W a =
     (if get_api_key W = [] \<or> \<not> truthy polyid then (False, W, a)
      else
        case next_reply W of
          (Response ok status txt js, W1) \<Rightarrow>
            if ok then
              (let a1 = log_append [Lit ''Deleted polygon '', Val polyid] a in
               case memory a1 ''polygons'' of
                 None \<Rightarrow> (True, W1, a1)
               | Some (PDict ps) \<Rightarrow>
                   (True, W1,
                    a1\<lparr>memory := (memory a1)(''polygons'' \<mapsto>
                                    PDict (filter (\<lambda>(k, v). \<not> py_eq v polyid) ps))\<rparr>)
               | Some _ \<Rightarrow>
                   (False, W1, log_append [Lit ''Polygon delete error: '', Exc AttributeError] a1))
            else (False, W1, log_append [Lit ''Polygon delete failed: '', Val (PInt status)] a)
        | (RequestFailed e, W1) \<Rightarrow>
            (False, W1, log_append [Lit ''Polygon delete error: '', Exc e] a))"

subsection \<open>Merging the payloads\<close>

text \<open>\<^verbatim>\<open>p[0] if isinstance(p, list) and p else p\<close>\<close>

definition first_or_self :: "pyval \<Rightarrow> pyval" where
  "first_or_self p = (case p of PList (x # xs) \<Rightarrow> x | _ \<Rightarrow> p)"

text \<open>
  \<^verbatim>\<open>try: memory[key] = float(v)\<close>, and in the \<^verbatim>\<open>except\<close> branch
  \<^verbatim>\<open>memory[key] = v\<close>.
\<close>

definition store_number :: "string \<Rightarrow> pyval \<Rightarrow> agent \<Rightarrow> agent" where
  "store_number key v a =
     (case py_float v of
        Inr x \<Rightarrow> a\<lparr>memory := (memory a)(key \<mapsto> PFloat x)\<rparr>
      | Inl e \<Rightarrow> a\<lparr>memory := (memory a)(key \<mapsto> v)\<rparr>)"

definition copy_field :: "(string \<times> pyval) list \<Rightarrow> string \<Rightarrow> string \<Rightarrow> agent \<Rightarrow> agent" where
  "copy_field w src key a =
     (case map_of w src of
        Some v \<Rightarrow> a\<lparr>memory := (memory a)(key \<mapsto> v)\<rparr>
      | None \<Rightarrow> a)"

definition store_soil :: "pyval \<Rightarrow> agent \<Rightarrow> agent" where
  "store_soil soil a =
     (if truthy soil then
        (case first_or_self soil of
           PDict s \<Rightarrow>
             let a1 = (case map_of s ''soil_moisture'' of
                         Some v \<Rightarrow> store_number ''soil_moisture'' v a
                       | None \<Rightarrow> a)
             in (case map_of s ''soil_temp'' of
                   Some v \<Rightarrow> store_number ''soil_temp_k'' v a1
                 | None \<Rightarrow> a1)
         | _ \<Rightarrow> a)
      else a)"

definition store_weather :: "pyval \<Rightarrow> agent \<Rightarrow> agent" where
  "store_weather weather a =
     (if truthy weather then
        (case first_or_self weather of
           PDict w \<Rightarrow>
             copy_field w ''ts'' ''agro_weather_ts''
               (copy_field w ''temperature'' ''agro_temp_k''
                 (copy_field w ''rain'' ''agro_precip'' a))
         | _ \<Rightarrow> a)
      else a)"

text \<open>
  \<^verbatim>\<open>_store_agro_payloads\<close>. Its result is of the form \<open>Inr\<close> when the method returns
  and \<open>Inl\<close> when an exception leaves it.
\<close>

definition store_agro_payloads :: "pyval \<Rightarrow> pyval \<Rightarrow> agent \<Rightarrow> error + agent" where
  "store_agro_payloads soil weather a =
     Inr (log_append [Lit ''Stored agro payloads into memory.'']
            (store_weather weather (store_soil soil a)))"

subsection \<open>Enrichment by coordinates\<close>

definition square_around :: "pyfloat \<Rightarrow> pyfloat \<Rightarrow> pyval" where
  "square_around lat lon =
     (let lo = Fin (- 0.001); hi = Fin 0.001;
          pt = (\<lambda>dx dy. PList [PFloat (flt_add lon dx), PFloat (flt_add lat dy)])
      in PDict [(''type'', PStr ''Feature''), (''properties'', PDict []),
                (''geometry'',
                 PDict [(''type'', PStr ''Polygon''),
                        (''coordinates'',
                         PList [PList [pt lo lo, pt hi lo, pt hi hi, pt lo hi, pt lo lo]])])])"

definition fetch_agro_for_location ::
  "pyfloat \<Rightarrow> pyfloat \<Rightarrow> bool \<Rightarrow> world \<Rightarrow> agent \<Rightarrow> (error + pyval) \<times> world \<times> agent" where
  "fetch_agro_for_location lat lon cleanup W a =
     (if get_api_key W = [] then
        (Inr PNone, W, log_append [Lit ''Agro API key missing; cannot fetch by location.''] a)
      else
        case create_polygon_from_geojson (square_around lat lon)
               (''field_'' @ str_of_int (clock W)) W a of
          (Inl e, W1, a1) \<Rightarrow> (Inl e, W1, a1)
        | (Inr created, W1, a1) \<Rightarrow>
            (case (if truthy created
                   then (case created of PDict d \<Rightarrow> Inr (dict_get d ''id'')
                         | _ \<Rightarrow> Inl AttributeError)
                   else Inr PNone) of
               Inl e \<Rightarrow> (Inl e, W1, a1)
             | Inr polyid \<Rightarrow>
                 if \<not> truthy polyid then (Inr PNone, W1, a1)
                 else
                   (case get_soil_by_polyid polyid W1 a1 of
                      (soil, W2, a2) \<Rightarrow>
                        (case get_weather_by_polyid polyid W2 a2 of
                           (weather, W3, a3) \<Rightarrow>
                             (case store_agro_payloads soil weather a3 of
                                Inl e \<Rightarrow> (Inl e, W3, a3)
                              | Inr a4 \<Rightarrow>
                                  let out = PDict [(''soil'', soil), (''weather'', weather)] in
                                  if cleanup then
                                    (case delete_polygon_by_id polyid W3 a4 of
                                       (ok, W5, a5) \<Rightarrow> (Inr out, W5, a5))
                                  else (Inr out, W3, a4))))))"


section \<open>Second entry point\<close>

text \<open>
  \<^verbatim>\<open>provide_followup_answers\<close> is given here in the four parts its comments mark: the
  loop that stores the answers, the treatment of a location, the enrichment from a
  polygon identifier, and the final computation. The answers are the items of the
  dictionary, in its order.
\<close>

definition store_answer :: "world \<Rightarrow> string \<times> pyval \<Rightarrow> agent \<Rightarrow> agent" where
  "store_answer W qa a =
     (case qa of
        (q_text, answer) \<Rightarrow>
          let field = (case question_to_field q_text of
                         Some f \<Rightarrow> f
                       | None \<Rightarrow> safe_key_from_question q_text);
              parsed = parse_answer_for_field W field answer
          in log_append [Lit ''Stored '', Val (PStr field), Lit '' = '', Val parsed]
               (a\<lparr>memory := (memory a)(field \<mapsto> parsed)\<rparr>))"

definition store_answers :: "world \<Rightarrow> (string \<times> pyval) list \<Rightarrow> agent \<Rightarrow> agent" where
  "store_answers W answers a = foldl (\<lambda>acc qa. store_answer W qa acc) a answers"

text \<open>\<^verbatim>\<open>s.split(sep)\<close> for a one-character separator: empty pieces are kept.\<close>

primrec split_on :: "char \<Rightarrow> string \<Rightarrow> string \<Rightarrow> string list" where
  "split_on sep [] cur = [cur]"
| "split_on sep (c # cs) cur =
     (if c = sep then cur # split_on sep cs [] else split_on sep cs (cur @ [c]))"

text \<open>
  \<^verbatim>\<open>lat_s, lon_s = loc.split(",")\<close> and the two calls of \<^verbatim>\<open>float\<close>: unpacking
  anything but two pieces raises \<^verbatim>\<open>ValueError\<close>.
\<close>

definition parse_lat_lon :: "string \<Rightarrow> error + (pyfloat \<times> pyfloat)" where
  "parse_lat_lon loc =
     (case split_on CHR '','' loc [] of
        [lat_s, lon_s] \<Rightarrow>
          (case float_of_str (py_strip lat_s) of
             None \<Rightarrow> Inl ValueError
           | Some lat \<Rightarrow>
               (case float_of_str (py_strip lon_s) of
                  None \<Rightarrow> Inl ValueError
                | Some lon \<Rightarrow> Inr (lat, lon)))
      | _ \<Rightarrow> Inl ValueError)"

definition classify_location :: "world \<Rightarrow> agent \<Rightarrow> world \<times> agent" where
  "classify_location W a =
     (case memory a ''location'' of
        None \<Rightarrow> (W, a)
      | Some loc \<Rightarrow>
          (case loc of
             PStr s \<Rightarrow>
               if CHR '','' \<notin> set s \<and> 6 \<le> length s then
                 (W, log_append [Lit ''Interpreting location as polyid: '', Val loc]
                       (a\<lparr>memory := (memory a)(''polyid'' \<mapsto> loc)\<rparr>))
               else if CHR '','' \<in> set s then
                 (case parse_lat_lon s of
                    Inl e \<Rightarrow>
                      (W, log_append [Lit ''Bad location format: '', Val loc, Lit '' -> '', Exc e] a)
                  | Inr (lat, lon) \<Rightarrow>
                      (case fetch_agro_for_location lat lon True W a of
                         (Inl e, W1, a1) \<Rightarrow>
                           (W1, log_append [Lit ''Bad location format: '', Val loc, Lit '' -> '',
                                            Exc e] a1)
                       | (Inr agro, W1, a1) \<Rightarrow>
                           (W1, log_append [Lit ''Agro fetched for lat,lon: '',
                                            Val (PBool (truthy agro))] a1)))
               else (W, a)
           | _ \<Rightarrow> (W, a)))"

definition enrich_from_polyid :: "world \<Rightarrow> agent \<Rightarrow> error option \<times> world \<times> agent" where
  "enrich_from_polyid W a =
     (case memory a ''polyid'' of
        None \<Rightarrow> (None, W, a)
      | Some polyid \<Rightarrow>
          if truthy polyid then
            (case get_soil_by_polyid polyid W a of
               (soil, W1, a1) \<Rightarrow>
                 (case get_weather_by_polyid polyid W1 a1 of
                    (weather, W2, a2) \<Rightarrow>
                      (case store_agro_payloads soil weather a2 of
                         Inl e \<Rightarrow> (Some e, W2, a2)
                       | Inr a3 \<Rightarrow> (None, W2, a3))))
          else (None, W, a))"

text \<open>The last four lines: \<^verbatim>\<open># Recompute and return final\<close>.\<close>

definition recompute_and_return :: "world \<Rightarrow> agent \<Rightarrow> (error + response) \<times> agent" where
  "recompute_and_return W a =
     (case execute_plan W (simple_planner (last_user_input a)) a of
        (Inl e, a1) \<Rightarrow> (Inl e, a1)
      | (Inr final, a1) \<Rightarrow>
          let a2 = a1\<lparr>last_result := Some final\<rparr> in (Inr (Final final (logs a2)), a2))"

definition provide_followup_answers ::
  "world \<Rightarrow> (string \<times> pyval) list \<Rightarrow> agent \<Rightarrow> (error + response) \<times> world \<times> agent" where
  "provide_followup_answers W answers a =
     (case classify_location W (store_answers W answers a) of
        (W1, a1) \<Rightarrow>
          (case enrich_from_polyid W1 a1 of
             (Some e, W2, a2) \<Rightarrow> (Inl e, W2, a2)
           | (None, W2, a2) \<Rightarrow>
               (case recompute_and_return W2 a2 of (r, a3) \<Rightarrow> (r, W2, a3))))"


section \<open>Notions used in the statements\<close>

text \<open>The elements of a list in the order of their first occurrence.\<close>

function first_seen :: "'a list \<Rightarrow> 'a list" where
  "first_seen [] = []"
| "first_seen (x # xs) = x # first_seen (filter (\<lambda>y. y \<noteq> x) xs)"
  by pat_completeness auto
termination
  by (relation "measure length") (auto simp: less_Suc_eq_le)

text \<open>The keys \<^verbatim>\<open>_store_agro_payloads\<close> writes.\<close>

definition enrichment_keys :: "string list" where
  "enrichment_keys =
     [''soil_moisture'', ''soil_temp_k'', ''agro_precip'', ''agro_temp_k'', ''agro_weather_ts'']"

text \<open>
  The mapping a payload offers to the merge: the payload itself when it is a mapping
  that is not empty, its first element when it is a sequence starting with a mapping,
  and none otherwise (an absent payload is \<open>PNone\<close>).
\<close>

definition payload_dict :: "pyval \<Rightarrow> (string \<times> pyval) list option" where
  "payload_dict p =
     (case p of
        PDict d \<Rightarrow> if d = [] then None else Some d
      | PList (PDict d # xs) \<Rightarrow> Some d
      | _ \<Rightarrow> None)"

text \<open>
  What a memory key holds after the merge, from what it held before: a soil reading is
  stored as a number when it coerces and as it is when it does not; a weather field is
  copied; a field the payload does not have leaves the key as it was.
\<close>

definition merged_number :: "pyval \<Rightarrow> string \<Rightarrow> pyval option \<Rightarrow> pyval option" where
  "merged_number payload field old =
     (case payload_dict payload of
        None \<Rightarrow> old
      | Some d \<Rightarrow>
          (case map_of d field of
             None \<Rightarrow> old
           | Some v \<Rightarrow> (case py_float v of Inr x \<Rightarrow> Some (PFloat x) | Inl e \<Rightarrow> Some v)))"

definition merged_copy :: "pyval \<Rightarrow> string \<Rightarrow> pyval option \<Rightarrow> pyval option" where
  "merged_copy payload field old =
     (case payload_dict payload of
        None \<Rightarrow> old
      | Some d \<Rightarrow> (case map_of d field of None \<Rightarrow> old | Some v \<Rightarrow> Some v))"

text \<open>A world with no API key and a gateway that never answers.\<close>

definition offline_world :: world where
  "offline_world = \<lparr>api_key_env = [], clock = 0, replies = [], py_repr = (\<lambda>v. [])\<rparr>"

text \<open>The kind of a response; an exception that reaches the caller is neither.\<close>

definition is_followup :: "error + response \<Rightarrow> bool" where
  "is_followup r = (case r of Inr (Followup qs ls) \<Rightarrow> True | _ \<Rightarrow> False)"

definition is_final :: "error + response \<Rightarrow> bool" where
  "is_final r = (case r of Inr (Final f ls) \<Rightarrow> True | _ \<Rightarrow> False)"

text \<open>
  The outcome of a finalization carried by the result of an entry point: the exception
  raised or the final result returned; none when the result is a follow-up.
\<close>

definition final_of :: "error + response \<Rightarrow> (error + final_result) option" where
  "final_of r =
     (case r of
        Inl e \<Rightarrow> Some (Inl e)
      | Inr (Final f ls) \<Rightarrow> Some (Inr f)
      | Inr (Followup qs ls) \<Rightarrow> None)"

text \<open>
  The state \<^verbatim>\<open>provide_followup_answers\<close> has reached when it recomputes the plan:
  answers stored, location treated, payloads merged.
\<close>

definition after_enrichment ::
  "world \<Rightarrow> (string \<times> pyval) list \<Rightarrow> agent \<Rightarrow> error option \<times> world \<times> agent" where
  "after_enrichment W answers a =
     (case classify_location W (store_answers W answers a) of
        (W1, a1) \<Rightarrow> enrich_from_polyid W1 a1)"

text \<open>Answers to every prompt, and one to a question the registry does not know.\<close>

definition six_answers :: "(string \<times> pyval) list" where
  "six_answers =
     [(''area'', PInt 2), (''soil type'', PStr ''clay''), (''ph'', PStr ''6.8''),
      (''moisture'', PStr ''high''), (''location'', PStr []),
      (''crop recommendation'', PStr ''x'')]"

section \<open>The field registry\<close>

text \<open>
  C6. For each of the canonical keys \<^verbatim>\<open>area_acres\<close>, \<^verbatim>\<open>soil_type\<close>, \<^verbatim>\<open>ph\<close>,
  \<^verbatim>\<open>moisture\<close> and \<^verbatim>\<open>location\<close>, \<^verbatim>\<open>question_to_field(field_to_question(k))\<close> is
  \<^verbatim>\<open>k\<close> again.
\<close>

theorem question_roundtrip:
  "map (\<lambda>k. question_to_field (field_to_question k)) canonical_fields = map Some canonical_fields"
  by code_simp

lemma field_to_question_inj: "field_to_question x = field_to_question y \<Longrightarrow> x = y"
  by (auto simp: field_to_question_def q_area_def q_soil_def q_ph_def q_moisture_def
      q_location_def em_dash_def split: if_splits)

section \<open>The missing-field resolver\<close>

lemma set_first_seen: "set (first_seen xs) = set xs"
  by (induction xs rule: first_seen.induct) auto

lemma distinct_first_seen: "distinct (first_seen xs)"
  by (induction xs rule: first_seen.induct) (auto simp: set_first_seen)

lemma dedupe_first_seen:
  "dedupe_to_questions ms seen = map field_to_question (first_seen (filter (\<lambda>m. m \<notin> seen) ms))"
proof (induction ms arbitrary: seen)
  case Nil
  show ?case by simp
next
  case (Cons m ms)
  have "filter (\<lambda>y. y \<noteq> m) (filter (\<lambda>y. y \<notin> seen) ms) = filter (\<lambda>y. y \<notin> insert m seen) ms"
    by (induction ms) auto
  with Cons show ?case by simp
qed

lemma count_map_inj:
  "(\<And>a b. f a = f b \<Longrightarrow> a = b) \<Longrightarrow> count_list (map f xs) (f x) = count_list xs x"
  by (induction xs) auto

lemma count_distinct: "distinct xs \<Longrightarrow> x \<in> set xs \<Longrightarrow> count_list xs x = 1"
  by (induction xs) auto

lemma missing_names_mem:
  "st \<in> set steps \<Longrightarrow> F \<in> set (requires st) \<Longrightarrow> memory a F = None \<Longrightarrow>
   replace_char CHR ''_'' '' '' F \<in> set (missing_names steps a)"
  by (auto simp: missing_names_def)

lemma identify_first_seen:
  "identify_missing_fields steps a = map field_to_question (first_seen (missing_names steps a))"
  by (simp add: identify_missing_fields_def dedupe_first_seen)

text \<open>
  C10. When a field is required by two steps of the plan and is absent from memory, its
  question occurs exactly once in the output of \<^verbatim>\<open>identify_missing_fields\<close>, and the
  output is the questions of the missing fields in the order in which the scan of the
  steps, and of the requirements of each step, first meets them.
\<close>

theorem identify_missing_fields_dedup:
  assumes "i < j" and "j < length steps"
    and "F \<in> set (requires (steps ! i))" and "F \<in> set (requires (steps ! j))"
    and "memory a F = None"
  shows "count_list (identify_missing_fields steps a)
           (field_to_question (replace_char CHR ''_'' '' '' F)) = 1
         \<and> identify_missing_fields steps a
             = map field_to_question (first_seen (missing_names steps a))"
proof -
  have "steps ! j \<in> set steps" using assms(2) by simp
  then have "replace_char CHR ''_'' '' '' F \<in> set (missing_names steps a)"
    using assms(4,5) by (rule missing_names_mem)
  then have "count_list (first_seen (missing_names steps a)) (replace_char CHR ''_'' '' '' F) = 1"
    by (simp add: count_distinct distinct_first_seen set_first_seen)
  then show ?thesis
    by (simp add: identify_first_seen count_map_inj field_to_question_inj)
qed

section \<open>The merge of the payloads\<close>

lemma memory_log_append [simp]: "memory (log_append l a) = memory a"
  by (simp add: log_append_def)

lemma memory_store_number:
  "memory (store_number key v a)
     = (memory a)(key \<mapsto> (case py_float v of Inr x \<Rightarrow> PFloat x | Inl e \<Rightarrow> v))"
  by (simp add: store_number_def split: sum.splits)

lemma memory_copy_field:
  "memory (copy_field w src key a)
     = (case map_of w src of Some v \<Rightarrow> (memory a)(key \<mapsto> v) | None \<Rightarrow> memory a)"
  by (simp add: copy_field_def split: option.splits)

lemma payload_dict_None:
  "payload_dict p = None \<Longrightarrow> \<not> truthy p \<or> (\<forall>d. first_or_self p \<noteq> PDict d)"
proof (cases p)
  case (PList xs)
  assume "payload_dict p = None"
  with PList show ?thesis
    by (cases xs; cases "hd xs") (auto simp: payload_dict_def first_or_self_def truthy_def)
qed (auto simp: payload_dict_def first_or_self_def truthy_def split: if_splits)

lemma payload_dict_Some:
  "payload_dict p = Some d \<Longrightarrow> truthy p \<and> first_or_self p = PDict d"
proof (cases p)
  case (PList xs)
  assume "payload_dict p = Some d"
  with PList show ?thesis
    by (cases xs; cases "hd xs") (auto simp: payload_dict_def first_or_self_def truthy_def)
qed (auto simp: payload_dict_def first_or_self_def truthy_def split: if_splits)

lemma store_soil_None: "payload_dict soil = None \<Longrightarrow> store_soil soil a = a"
  using payload_dict_None[of soil]
  by (cases "first_or_self soil") (auto simp: store_soil_def)

lemma store_weather_None: "payload_dict weather = None \<Longrightarrow> store_weather weather a = a"
  using payload_dict_None[of weather]
  by (cases "first_or_self weather") (auto simp: store_weather_def)

lemma store_soil_Some:
  "payload_dict soil = Some s \<Longrightarrow>
   store_soil soil a =
     (let a1 = (case map_of s ''soil_moisture'' of
                  Some v \<Rightarrow> store_number ''soil_moisture'' v a
                | None \<Rightarrow> a)
      in (case map_of s ''soil_temp'' of
            Some v \<Rightarrow> store_number ''soil_temp_k'' v a1
          | None \<Rightarrow> a1))"
  using payload_dict_Some[of soil s] by (simp add: store_soil_def)

lemma store_weather_Some:
  "payload_dict weather = Some w \<Longrightarrow>
   store_weather weather a =
     copy_field w ''ts'' ''agro_weather_ts''
       (copy_field w ''temperature'' ''agro_temp_k'' (copy_field w ''rain'' ''agro_precip'' a))"
  using payload_dict_Some[of weather w] by (simp add: store_weather_def)

lemma store_number_keeps:
  "dom (memory a) \<subseteq> dom (memory (store_number key v a)) \<and>
   (\<forall>k. k \<noteq> key \<longrightarrow> memory (store_number key v a) k = memory a k)"
  by (auto simp: memory_store_number)

lemma copy_field_keeps:
  "dom (memory a) \<subseteq> dom (memory (copy_field w src key a)) \<and>
   (\<forall>k. k \<noteq> key \<longrightarrow> memory (copy_field w src key a) k = memory a k)"
  by (auto simp: memory_copy_field split: option.splits)

lemma store_soil_keeps:
  "dom (memory a) \<subseteq> dom (memory (store_soil soil a)) \<and>
   (\<forall>k. k \<notin> {''soil_moisture'', ''soil_temp_k''} \<longrightarrow> memory (store_soil soil a) k = memory a k)"
proof (cases "payload_dict soil")
  case None
  then show ?thesis by (simp add: store_soil_None)
next
  case (Some s)
  show ?thesis
    unfolding store_soil_Some[OF Some] Let_def
    by (auto simp: memory_store_number split: option.splits)
qed

lemma store_weather_keeps:
  "dom (memory a) \<subseteq> dom (memory (store_weather w a)) \<and>
   (\<forall>k. k \<notin> {''agro_precip'', ''agro_temp_k'', ''agro_weather_ts''} \<longrightarrow>
        memory (store_weather w a) k = memory a k)"
proof (cases "payload_dict w")
  case None
  then show ?thesis by (simp add: store_weather_None)
next
  case (Some d)
  show ?thesis
    unfolding store_weather_Some[OF Some]
    by (auto simp: memory_copy_field split: option.splits)
qed

lemma keeps_trans:
  assumes "dom m \<subseteq> dom m1 \<and> (\<forall>k. k \<notin> A \<longrightarrow> m1 k = m k)"
    and "dom m1 \<subseteq> dom m2 \<and> (\<forall>k. k \<notin> B \<longrightarrow> m2 k = m1 k)"
    and "A \<subseteq> C" and "B \<subseteq> C"
  shows "dom m \<subseteq> dom m2 \<and> (\<forall>k. k \<notin> C \<longrightarrow> m2 k = m k)"
proof
  show "dom m \<subseteq> dom m2" using assms(1,2) by (meson subset_trans)
  show "\<forall>k. k \<notin> C \<longrightarrow> m2 k = m k"
  proof (intro allI impI)
    fix k assume "k \<notin> C"
    then have "k \<notin> A" "k \<notin> B" using assms(3,4) by auto
    then show "m2 k = m k" using assms(1,2) by simp
  qed
qed

lemma store_payloads_keeps:
  "dom (memory a) \<subseteq> dom (memory (store_weather weather (store_soil soil a))) \<and>
   (\<forall>k. k \<notin> set enrichment_keys \<longrightarrow>
        memory (store_weather weather (store_soil soil a)) k = memory a k)"
proof (rule keeps_trans[OF store_soil_keeps store_weather_keeps])
  show "{''soil_moisture'', ''soil_temp_k''} \<subseteq> set enrichment_keys"
    by (simp add: enrichment_keys_def)
  show "{''agro_precip'', ''agro_temp_k'', ''agro_weather_ts''} \<subseteq> set enrichment_keys"
    by (simp add: enrichment_keys_def)
qed

text \<open>
  C9. Whatever the payloads and the memory, \<^verbatim>\<open>_store_agro_payloads\<close> returns, every
  key of the memory is still a key afterwards, and a key that is not one of the five
  the merge writes holds the value it held.
\<close>

theorem store_agro_payloads_keeps:
  "\<exists>a'. store_agro_payloads soil weather a = Inr a' \<and>
        dom (memory a) \<subseteq> dom (memory a') \<and>
        (\<forall>k. k \<notin> set enrichment_keys \<longrightarrow> memory a' k = memory a k)"
  using store_payloads_keeps[of a weather soil] by (simp add: store_agro_payloads_def)

lemma soil_number_merged:
  "memory (store_soil soil a) ''soil_moisture''
     = merged_number soil ''soil_moisture'' (memory a ''soil_moisture'') \<and>
   memory (store_soil soil a) ''soil_temp_k''
     = merged_number soil ''soil_temp'' (memory a ''soil_temp_k'')"
proof (cases "payload_dict soil")
  case None
  then show ?thesis by (simp add: store_soil_None merged_number_def)
next
  case (Some s)
  show ?thesis
    unfolding store_soil_Some[OF Some] Let_def
    by (simp add: merged_number_def Some memory_store_number split: option.splits sum.splits)
qed

lemma weather_copy_merged:
  "memory (store_weather w a) ''agro_precip'' = merged_copy w ''rain'' (memory a ''agro_precip'') \<and>
   memory (store_weather w a) ''agro_temp_k''
     = merged_copy w ''temperature'' (memory a ''agro_temp_k'') \<and>
   memory (store_weather w a) ''agro_weather_ts'' = merged_copy w ''ts'' (memory a ''agro_weather_ts'')"
proof (cases "payload_dict w")
  case None
  then show ?thesis by (simp add: store_weather_None merged_copy_def)
next
  case (Some d)
  show ?thesis
    unfolding store_weather_Some[OF Some]
    by (simp add: merged_copy_def Some memory_copy_field split: option.splits)
qed

text \<open>
  C8, as the code has it. Whatever the shape of the two payloads,
  \<^verbatim>\<open>_store_agro_payloads\<close> returns; a field the payload does not have leaves its key
  as it was; a soil reading is stored as a number when it coerces and, when it does
  not, is stored as it is; a weather field is copied as it is.
\<close>

theorem store_agro_payloads_total:
  "\<exists>a'. store_agro_payloads soil weather a = Inr a' \<and>
        memory a' ''soil_moisture'' = merged_number soil ''soil_moisture'' (memory a ''soil_moisture'') \<and>
        memory a' ''soil_temp_k'' = merged_number soil ''soil_temp'' (memory a ''soil_temp_k'') \<and>
        memory a' ''agro_precip'' = merged_copy weather ''rain'' (memory a ''agro_precip'') \<and>
        memory a' ''agro_temp_k'' = merged_copy weather ''temperature'' (memory a ''agro_temp_k'') \<and>
        memory a' ''agro_weather_ts'' = merged_copy weather ''ts'' (memory a ''agro_weather_ts'')"
proof -
  let ?b = "store_soil soil a"
  have w: "memory (store_weather weather ?b) ''soil_moisture'' = memory ?b ''soil_moisture''"
    "memory (store_weather weather ?b) ''soil_temp_k'' = memory ?b ''soil_temp_k''"
    using store_weather_keeps[of ?b weather] by simp_all
  have s: "memory ?b ''agro_precip'' = memory a ''agro_precip''"
    "memory ?b ''agro_temp_k'' = memory a ''agro_temp_k''"
    "memory ?b ''agro_weather_ts'' = memory a ''agro_weather_ts''"
    using store_soil_keeps[of a soil] by simp_all
  show ?thesis
    using soil_number_merged[of soil a] weather_copy_merged[of weather ?b]
    by (simp add: store_agro_payloads_def w s)
qed

text \<open>
  C8 as stated fails: the reading \<^verbatim>\<open>"wet"\<close> does not coerce to a number, and the merge
  stores it under \<^verbatim>\<open>soil_moisture\<close>.
\<close>

theorem malformed_reading_is_stored:
  "py_float (PStr ''wet'') = Inl ValueError \<and>
   memory (projr (store_agro_payloads (PDict [(''soil_moisture'', PStr ''wet'')]) PNone new_agent))
     ''soil_moisture'' = Some (PStr ''wet'')"
  by code_simp

end
